theory Spec2Isabelle
  imports Complex_Main
begin

section \<open>The overflow list of \<^verbatim>\<open>assets/overflow-list.js\<close>\<close>

text \<open>
  The custom element \<^verbatim>\<open>OverflowList\<close> keeps a row of slotted children on one line: a
  reflow pass measures every child against the "more" slot and moves the children that
  wrapped below it into the slot named \<^verbatim>\<open>overflow\<close>. The embedding follows the class
  method by method. The DOM the class reads and writes is an explicit state (a record);
  a \<^verbatim>\<open>throw\<close> is a value that carries the state at the throw; the rectangles that
  \<^verbatim>\<open>getBoundingClientRect\<close> returns are an input of each pass, since the browser's layout
  engine computes them and the class only compares them. Listeners of the dispatched
  event belong to other components and do not write to this one. The wait for the
  style sheet in \<^verbatim>\<open>connectedCallback\<close> is not part of the embedding: \<^verbatim>\<open>#initialize\<close>
  is the call that follows it.
\<close>

subsection \<open>Values\<close>

text \<open>
  A JavaScript number as far as the class needs one: the result of \<^verbatim>\<open>parseInt\<close> is an
  integer or NaN. (\<^verbatim>\<open>parseInt\<close> rounds a very long digit string to a double; the only use
  of the result is a comparison with an array length, which the rounding cannot change,
  so the integer is kept exact. The sign of zero is not kept either.)
\<close>

datatype jsnum = NaN | Num int

text \<open>\<^verbatim>\<open>length < m\<close> for an array length and a number: false when \<^verbatim>\<open>m\<close> is NaN.\<close>

fun js_less :: "nat \<Rightarrow> jsnum \<Rightarrow> bool" where
  "js_less n NaN = False"
| "js_less n (Num k) = (int n < k)"

definition isWhiteSpace :: "char \<Rightarrow> bool" where
  "isWhiteSpace c =
     (c \<in> set [CHR 0x09, CHR 0x0A, CHR 0x0B, CHR 0x0C, CHR 0x0D, CHR '' '', CHR 0xA0])"

definition isDigit :: "char \<Rightarrow> bool" where
  "isDigit c = (c \<in> set ''0123456789'')"

definition digitValue :: "char \<Rightarrow> nat" where
  "digitValue c = of_char c - 48"

text \<open>
  \<^verbatim>\<open>parseInt(string, 10)\<close>: leading white space is skipped, one sign is read, then the
  longest run of decimal digits; no digit gives NaN. A character is a code unit below
  256, so the white space is the tab, the line feed, the vertical tab, the form feed,
  the carriage return, the space and the no-break space.
\<close>

definition parseInt :: "string \<Rightarrow> jsnum" where
  "parseInt inputString =
     (let S = dropWhile isWhiteSpace inputString;
          sign = (case S of c # _ \<Rightarrow> if c = CHR ''-'' then - 1 else 1 | [] \<Rightarrow> (1::int));
          S' = (case S of c # rest \<Rightarrow> if c = CHR ''+'' \<or> c = CHR ''-'' then rest else S | [] \<Rightarrow> S);
          Z = takeWhile isDigit S'
      in if Z = [] then NaN
         else Num (sign * int (foldl (\<lambda>a c. 10 * a + digitValue c) 0 Z)))"

text \<open>
  The value of an inline style property. \<open>Str\<close> is a string literal of the source,
  \<open>Px x\<close> the template \<^verbatim>\<open>`${x}px`\<close>, \<open>Dec n\<close> the decimal string of \<open>n\<close>
  (\<^verbatim>\<open>`${n}`\<close>, and the literal \<^verbatim>\<open>'0'\<close>, which is \<open>Dec 0\<close>), \<open>CounterReset n\<close> the
  template \<^verbatim>\<open>`overflow-count ${n}`\<close>.
\<close>

datatype css_value = Str string | Px real | Dec nat | CounterReset nat

datatype elem_class =
  HTMLSlotElement | HTMLUListElement | HTMLLIElement | HTMLTemplateElement
  | HTMLOtherElement | NonHTMLElement

text \<open>\<^verbatim>\<open>x instanceof HTMLElement\<close>: every HTML class, not an SVG or MathML element.\<close>

definition isHTMLElement :: "elem_class \<Rightarrow> bool" where
  "isHTMLElement c = (c \<noteq> NonHTMLElement)"

datatype error = MissingShadowRoot | InvalidElementTypes | TypeError

subsection \<open>The DOM the class touches\<close>

text \<open>
  An element: its identity \<open>eid\<close>, its class, its \<^verbatim>\<open>slot\<close> attribute (the empty
  string when absent, as the \<^verbatim>\<open>slot\<close> property reads), its inline style, its
  \<^verbatim>\<open>hidden\<close> property and its \<^verbatim>\<open>shadowrootmode\<close> attribute (\<open>None\<close> when absent).
\<close>

record element =
  eid :: nat
  cls :: elem_class
  slot :: string
  style :: "string \<Rightarrow> css_value option"
  hidden :: bool
  shadowrootmode :: "string option"

definition setProperty :: "string \<Rightarrow> css_value \<Rightarrow> element \<Rightarrow> element" where
  "setProperty name v el = el\<lparr>style := (style el)(name \<mapsto> v)\<rparr>"

definition removeProperty :: "string \<Rightarrow> element \<Rightarrow> element" where
  "removeProperty name el = el\<lparr>style := (style el)(name := None)\<rparr>"

text \<open>
  The six \<^verbatim>\<open>querySelector\<close> results of \<^verbatim>\<open>#initialize\<close>, as the elements are when it
  runs; \<open>None\<close> is \<^verbatim>\<open>null\<close>. Once \<^verbatim>\<open>#refs\<close> is set, the elements are read and written
  there.
\<close>

record shadow_root =
  q_defaultSlot :: "element option"
  q_overflowSlot :: "element option"
  q_moreSlot :: "element option"
  q_overflow :: "element option"
  q_list :: "element option"
  q_placeholder :: "element option"

text \<open>The private field \<^verbatim>\<open>#refs\<close>. The field \<^verbatim>\<open>list\<close> is named \<open>listEl\<close> here.\<close>

record refs_rec =
  defaultSlot :: element
  overflowSlot :: element
  moreSlot :: element
  overflow :: element
  listEl :: element
  placeholder :: element

text \<open>
  The names of the two slots: \<^verbatim>\<open>slot:not([name])\<close> selects a slot whose \<^verbatim>\<open>name\<close> is
  the empty string, \<^verbatim>\<open>slot[name="overflow"]\<close> one whose name is \<^verbatim>\<open>overflow\<close>.
\<close>

definition defaultSlot_name :: string where
  "defaultSlot_name = ''''"

definition overflowSlot_name :: string where
  "overflowSlot_name = ''overflow''"

record rect =
  top :: real
  width :: real

text \<open>
  What the browser measures during one pass: the rectangle of the "more" slot and the
  rectangle of each child, by identity.
\<close>

record layout =
  moreSlotRect :: rect
  elementRect :: "nat \<Rightarrow> rect"

text \<open>
  The component. \<open>children\<close> are the element children of the host in document order;
  \<open>attrs\<close> its attributes; \<open>hostStyle\<close> its inline style. \<open>resizeObserving\<close> and
  \<open>mutationObserving\<close> say whether \<^verbatim>\<open>#resizeObserver\<close> and \<^verbatim>\<open>#mutationObserver\<close>
  observe the host; \<open>intersectionObserved\<close> lists the targets of
  \<^verbatim>\<open>#intersectionObserver\<close>. \<open>reflowListeners\<close> counts the listeners added for the
  \<^verbatim>\<open>reflow\<close> event, \<open>dispatched\<close> is the list of \<^verbatim>\<open>detail.minimumReached\<close> of every
  \<^verbatim>\<open>OverflowMinimumEvent\<close> dispatched so far, oldest first, and \<open>pending\<close> counts the
  callbacks that \<^verbatim>\<open>#handleChange\<close> has handed to
  \<^verbatim>\<open>requestAnimationFrame\<close>/\<^verbatim>\<open>setTimeout\<close> and that have not run yet.
  \<open>intersectionTasks\<close> holds, for every callback that \<^verbatim>\<open>#handleIntersection\<close> has handed
  to \<^verbatim>\<open>setTimeout\<close> and that has not run yet, the height it will pass on.
\<close>

record overflow_list =
  shadowRoot :: "shadow_root option"
  refs :: "refs_rec option"
  children :: "element list"
  attrs :: "string \<Rightarrow> string option"
  hostStyle :: "string \<Rightarrow> css_value option"
  scheduled :: bool
  resizeObserving :: bool
  mutationObserving :: bool
  intersectionObserved :: "nat list"
  reflowListeners :: nat
  dispatched :: "bool list"
  pending :: nat
  intersectionTasks :: "real list"

text \<open>
  The outcome of a method: it returns, with the state it leaves, or it throws, with the
  state at the throw.
\<close>

datatype outcome = Return overflow_list | Throw error overflow_list

subsection \<open>Initialisation and teardown\<close>

definition isSlot :: "element option \<Rightarrow> bool" where
  "isSlot q = (case q of None \<Rightarrow> False | Some el \<Rightarrow> cls el = HTMLSlotElement)"

definition isHTML :: "element option \<Rightarrow> bool" where
  "isHTML q = (case q of None \<Rightarrow> False | Some el \<Rightarrow> isHTMLElement (cls el))"

definition isUList :: "element option \<Rightarrow> bool" where
  "isUList q = (case q of None \<Rightarrow> False | Some el \<Rightarrow> cls el = HTMLUListElement)"

definition isLI :: "element option \<Rightarrow> bool" where
  "isLI q = (case q of None \<Rightarrow> False | Some el \<Rightarrow> cls el = HTMLLIElement)"

text \<open>\<^verbatim>\<open>slot.assignedElements()\<close>: the children whose \<^verbatim>\<open>slot\<close> is the slot's name.\<close>

definition assignedElements :: "string \<Rightarrow> element list \<Rightarrow> element list" where
  "assignedElements name cs = filter (\<lambda>element. slot element = name) cs"

text \<open>
  \<^verbatim>\<open>IntersectionObserver.observe\<close>: a target that is observed already is not added
  again.
\<close>

definition observeTarget :: "nat \<Rightarrow> nat list \<Rightarrow> nat list" where
  "observeTarget i observed = (if i \<in> set observed then observed else observed @ [i])"

text \<open>
  \<^verbatim>\<open>#initialize\<close>. Every \<^verbatim>\<open>throw\<close> comes before the first write. The last element
  of the filtered array is another object than the first one exactly when the array has
  more than one entry.
\<close>

definition initialize :: "overflow_list \<Rightarrow> outcome" where
  "initialize s =
     (case shadowRoot s of
        None \<Rightarrow> Throw MissingShadowRoot s
      | Some sr \<Rightarrow>
          if \<not> isSlot (q_defaultSlot sr) \<or> \<not> isSlot (q_overflowSlot sr) \<or>
             \<not> isSlot (q_moreSlot sr) \<or> \<not> isHTML (q_overflow sr) \<or>
             \<not> isUList (q_list sr) \<or> \<not> isLI (q_placeholder sr)
          then Throw InvalidElementTypes s
          else
            (case (q_defaultSlot sr, q_overflowSlot sr, q_moreSlot sr,
                   q_overflow sr, q_list sr, q_placeholder sr) of
               (Some d, Some ov, Some m, Some ovp, Some l, Some p) \<Rightarrow>
                 let elements = filter (\<lambda>element. cls element \<noteq> HTMLTemplateElement)
                                  (assignedElements defaultSlot_name (children s));
                     observed1 = (case elements of [] \<Rightarrow> intersectionObserved s
                                  | firstElement # _ \<Rightarrow>
                                      observeTarget (eid firstElement)
                                        (intersectionObserved s));
                     observed2 = (if length elements > 1
                                  then observeTarget (eid (last elements)) observed1
                                  else observed1)
                 in Return (s\<lparr>refs := Some \<lparr>defaultSlot = d, overflowSlot = ov, moreSlot = m,
                                             overflow = ovp, listEl = l, placeholder = p\<rparr>,
                               reflowListeners := reflowListeners s + 1,
                               intersectionObserved := observed2\<rparr>)
             | _ \<Rightarrow> Throw InvalidElementTypes s))"

definition disconnectedCallback :: "overflow_list \<Rightarrow> overflow_list" where
  "disconnectedCallback s =
     s\<lparr>resizeObserving := False, mutationObserving := False, intersectionObserved := []\<rparr>"

definition observeChanges :: "overflow_list \<Rightarrow> overflow_list" where
  "observeChanges s = s\<lparr>resizeObserving := True, mutationObserving := True\<rparr>"

definition unobserveChanges :: "overflow_list \<Rightarrow> overflow_list" where
  "unobserveChanges s = s\<lparr>resizeObserving := False, mutationObserving := False\<rparr>"

subsection \<open>The minimum-items threshold\<close>

text \<open>The getter \<^verbatim>\<open>minimumItems\<close>: an absent or empty attribute is \<^verbatim>\<open>null\<close>.\<close>

definition minimumItems :: "overflow_list \<Rightarrow> jsnum option" where
  "minimumItems s =
     (case attrs s ''minimum-items'' of
        None \<Rightarrow> None
      | Some v \<Rightarrow> if v = [] then None else Some (parseInt v))"

definition updateMinimumReached :: "element list \<Rightarrow> overflow_list \<Rightarrow> overflow_list" where
  "updateMinimumReached visibleElements s =
     (case minimumItems s of
        None \<Rightarrow> s
      | Some m \<Rightarrow>
          let minimumReached = js_less (length visibleElements) m;
              s1 = (if minimumReached
                    then s\<lparr>attrs := (attrs s)(''minimum-reached'' \<mapsto> '''')\<rparr>
                    else s\<lparr>attrs := (attrs s)(''minimum-reached'' := None)\<rparr>)
          in s1\<lparr>dispatched := dispatched s1 @ [minimumReached]\<rparr>)"

subsection \<open>The reflow pass\<close>

definition moveItemsToDefaultSlot :: "element list \<Rightarrow> element list" where
  "moveItemsToDefaultSlot cs =
     map (\<lambda>element.
            if slot element = overflowSlot_name
            then (if slot element \<noteq> defaultSlot_name
                  then element\<lparr>slot := defaultSlot_name\<rparr> else element)
            else element) cs"

text \<open>The four variables that the \<^verbatim>\<open>forEach\<close> of the pass updates.\<close>

record buckets =
  visibleElements :: "element list"
  overflowingElements :: "element list"
  placeholderWidth :: real
  hasOverflow :: bool

definition noBuckets :: buckets where
  "noBuckets = \<lparr>visibleElements = [], overflowingElements = [], placeholderWidth = 0,
                hasOverflow = False\<rparr>"

text \<open>The body of the \<^verbatim>\<open>forEach\<close>: one element is measured and pushed to a bucket.\<close>

definition classify :: "layout \<Rightarrow> buckets \<Rightarrow> element \<Rightarrow> buckets" where
  "classify lay b element =
     (let r = elementRect lay (eid element) in
      if top r > top (moreSlotRect lay)
      then b\<lparr>placeholderWidth :=
                (if overflowingElements b = [] then width r else placeholderWidth b),
             hasOverflow := True,
             overflowingElements := overflowingElements b @ [element]\<rparr>
      else b\<lparr>visibleElements := visibleElements b @ [element]\<rparr>)"

text \<open>
  A write to the style of \<^verbatim>\<open>lastVisibleElement\<close>, when there is one: it reaches the
  child with that identity. An element that is not a child of the host is outside the
  state.
\<close>

definition styleLastVisible :: "nat option \<Rightarrow> (element \<Rightarrow> element) \<Rightarrow> element list \<Rightarrow> element list" where
  "styleLastVisible lastVisibleElement f cs =
     (case lastVisibleElement of
        None \<Rightarrow> cs
      | Some i \<Rightarrow> map (\<lambda>element. if eid element = i then f element else element) cs)"

text \<open>
  The loop that moves the elements to their slots. It runs over the elements of the
  default slot; \<^verbatim>\<open>includes\<close> compares identities.
\<close>

definition assignSlots :: "element list \<Rightarrow> element list \<Rightarrow> element list" where
  "assignSlots overflowing cs =
     map (\<lambda>element.
            if slot element = defaultSlot_name
            then (let targetSlot = (if eid element \<in> set (map eid overflowing)
                                    then overflowSlot_name else defaultSlot_name)
                  in if slot element \<noteq> targetSlot
                     then element\<lparr>slot := targetSlot\<rparr> else element)
            else element) cs"

definition reflowItems :: "real \<Rightarrow> nat option \<Rightarrow> layout \<Rightarrow> overflow_list \<Rightarrow> outcome" where
  "reflowItems listHeight lastVisibleElement lay s0 =
     (case refs s0 of
        None \<Rightarrow> Throw TypeError s0
      | Some r \<Rightarrow>
          let s1 = unobserveChanges s0;
              cs1 = moveItemsToDefaultSlot (children s1);
              elements = assignedElements defaultSlot_name cs1
          in if elements = [] then Return (observeChanges (s1\<lparr>children := cs1\<rparr>))
             else
               let list1 = (if listHeight > 0
                            then setProperty ''height'' (Px listHeight) (listEl r)
                            else listEl r);
                   list2 = setProperty ''flex-wrap'' (Str ''wrap'') list1;
                   placeholder1 = (placeholder r)\<lparr>hidden := True\<rparr>;
                   more1 = (setProperty ''order'' (Str ''-1'') (moreSlot r))\<lparr>hidden := False\<rparr>;
                   cs2 = styleLastVisible lastVisibleElement
                           (setProperty ''order'' (Str ''-1'')) cs1;
                   b = foldl (classify lay) noBuckets elements;
                   more2 = (if hasOverflow b then removeProperty ''order'' more1 else more1);
                   cs3 = styleLastVisible lastVisibleElement (removeProperty ''order'') cs2;
                   cs4 = assignSlots (overflowingElements b) cs3;
                   list3 = setProperty ''counter-reset''
                             (CounterReset (length (overflowingElements b))) list2;
                   hostStyle1 = (hostStyle s1)(''--overflow-count'' \<mapsto>
                                   Dec (length (overflowingElements b)));
                   more3 = more2\<lparr>hidden := \<not> hasOverflow b\<rparr>;
                   placeholder2 = (if hasOverflow b
                                   then (setProperty ''width'' (Px (placeholderWidth b))
                                           placeholder1)\<lparr>hidden := False\<rparr>
                                   else placeholder1);
                   list4 = setProperty ''overflow'' (Str ''unset'') list3;
                   s2 = s1\<lparr>children := cs4, hostStyle := hostStyle1,
                           refs := Some (r\<lparr>moreSlot := more3, listEl := list4,
                                            placeholder := placeholder2\<rparr>)\<rparr>;
                   s3 = (if hasOverflow b then updateMinimumReached (visibleElements b) s2
                         else s2)
               in Return (observeChanges s3))"

subsection \<open>Disabling and showing all\<close>

definition reset :: "overflow_list \<Rightarrow> outcome" where
  "reset s0 =
     (case refs s0 of
        None \<Rightarrow> Throw TypeError s0
      | Some r \<Rightarrow>
          let s1 = unobserveChanges s0;
              cs1 = moveItemsToDefaultSlot (children s1);
              list1 = removeProperty ''height'' (listEl r)
          in Return (s1\<lparr>children := cs1, refs := Some (r\<lparr>listEl := list1\<rparr>),
                        hostStyle := (hostStyle s1)(''--overflow-count'' \<mapsto> Dec 0)\<rparr>))"

text \<open>
  \<^verbatim>\<open>attributeChangedCallback\<close>; \<open>None\<close> is a \<^verbatim>\<open>null\<close> value (the attribute is absent).
  The layout is what the browser measures if the callback runs a pass.
\<close>

definition attributeChangedCallback ::
  "string \<Rightarrow> string option \<Rightarrow> string option \<Rightarrow> layout \<Rightarrow> overflow_list \<Rightarrow> outcome" where
  "attributeChangedCallback name oldValue newValue lay s =
     (if name = ''disabled''
      then (if newValue = Some ''true'' then reset s else reflowItems 0 None lay s)
      else Return s)"

text \<open>
  \<^verbatim>\<open>showAll\<close>. \<^verbatim>\<open>disabled\<close> is an observed attribute, so \<^verbatim>\<open>setAttribute\<close> runs
  \<^verbatim>\<open>attributeChangedCallback\<close> before it returns.
\<close>

definition showAll :: "layout \<Rightarrow> overflow_list \<Rightarrow> outcome" where
  "showAll lay s =
     (case refs s of
        None \<Rightarrow> Throw TypeError s
      | Some r \<Rightarrow>
          let placeholder1 = setProperty ''width'' (Dec 0) (placeholder r);
              placeholder2 = setProperty ''display'' (Str ''none'') placeholder1;
              s1 = s\<lparr>refs := Some (r\<lparr>placeholder := placeholder2\<rparr>)\<rparr>;
              oldValue = attrs s1 ''disabled'';
              s2 = s1\<lparr>attrs := (attrs s1)(''disabled'' \<mapsto> ''true'')\<rparr>
          in attributeChangedCallback ''disabled'' oldValue (Some ''true'') lay s2)"

subsection \<open>Coalesced reflows\<close>

text \<open>
  \<^verbatim>\<open>#handleChange\<close>, the callback of the resize and of the mutation observer: the first
  notification schedules one callback, later ones return while it is scheduled.
\<close>

definition handleChange :: "overflow_list \<Rightarrow> overflow_list" where
  "handleChange s =
     (if scheduled s then s else s\<lparr>scheduled := True, pending := pending s + 1\<rparr>)"

text \<open>The callback that \<^verbatim>\<open>#handleChange\<close> schedules.\<close>

definition scheduledCallback :: "layout \<Rightarrow> overflow_list \<Rightarrow> outcome" where
  "scheduledCallback lay s =
     (case reflowItems 0 None lay s of
        Return s' \<Rightarrow> Return (s'\<lparr>scheduled := False\<rparr>)
      | Throw e s' \<Rightarrow> Throw e s')"

subsection \<open>The other two ways into a pass\<close>

text \<open>
  An entry of the intersection observer, as far as \<^verbatim>\<open>#handleIntersection\<close> reads it:
  \<^verbatim>\<open>isIntersecting\<close> and \<^verbatim>\<open>boundingClientRect.height\<close>.
\<close>

record entry =
  isIntersecting :: bool
  boundingHeight :: real

text \<open>
  \<^verbatim>\<open>#handleIntersection\<close>: when the first entry intersects, the observer is disconnected
  and a callback is handed to \<^verbatim>\<open>setTimeout\<close>.
\<close>

definition handleIntersection :: "entry list \<Rightarrow> overflow_list \<Rightarrow> overflow_list" where
  "handleIntersection entries s =
     (case entries of
        [] \<Rightarrow> s
      | e # _ \<Rightarrow>
          if isIntersecting e
          then s\<lparr>intersectionObserved := [],
                 intersectionTasks := intersectionTasks s @ [boundingHeight e]\<rparr>
          else s)"

text \<open>
  \<^verbatim>\<open>querySelector(':scope > template[shadowrootmode="open"]')?.remove()\<close>: the first
  such child leaves the host.
\<close>

fun removeTemplate :: "element list \<Rightarrow> element list" where
  "removeTemplate [] = []"
| "removeTemplate (c # cs) =
     (if cls c = HTMLTemplateElement \<and> shadowrootmode c = Some ''open''
      then cs else c # removeTemplate cs)"

text \<open>The callback that \<^verbatim>\<open>#handleIntersection\<close> schedules, for the height it kept.\<close>

definition intersectionCallback :: "real \<Rightarrow> layout \<Rightarrow> overflow_list \<Rightarrow> outcome" where
  "intersectionCallback h lay s =
     reflowItems h None lay (s\<lparr>children := removeTemplate (children s)\<rparr>)"

text \<open>
  The listener that \<^verbatim>\<open>#initialize\<close> adds for the \<^verbatim>\<open>reflow\<close> event. Its argument is
  \<^verbatim>\<open>event.detail.lastVisibleElement\<close>; an absent one is \<^verbatim>\<open>null\<close> by the default of the
  parameter.
\<close>

definition reflowListener :: "nat option \<Rightarrow> layout \<Rightarrow> overflow_list \<Rightarrow> outcome" where
  "reflowListener lastVisibleElement lay s = reflowItems 0 lastVisibleElement lay s"

subsection \<open>What the browser does to the component\<close>

text \<open>
  Between two calls of its methods the browser can do this to the component. A resize
  or a child-list mutation happens, and the observer's callback runs if the observer
  observes the host. A scheduled callback of \<^verbatim>\<open>#handleChange\<close> comes due, with the
  layout the browser measures at that moment. The intersection observer reports
  entries, if it has a target. A scheduled callback of \<^verbatim>\<open>#handleIntersection\<close> comes
  due. A \<^verbatim>\<open>reflow\<close> event reaches the host and one of the listeners added for it runs
  (an event runs each of them in turn). An exception that leaves a callback or a
  listener is reported by the browser and the state stays as the throw left it.
\<close>

datatype event =
  ResizeNotification
  | MutationNotification
  | CallbackFires layout
  | IntersectionNotification "entry list"
  | IntersectionCallbackFires layout
  | ReflowListenerRuns "nat option" layout

fun step :: "event \<Rightarrow> overflow_list \<Rightarrow> overflow_list" where
  "step ResizeNotification s = (if resizeObserving s then handleChange s else s)"
| "step MutationNotification s = (if mutationObserving s then handleChange s else s)"
| "step (CallbackFires lay) s =
     (if pending s = 0 then s
      else (case scheduledCallback lay (s\<lparr>pending := pending s - 1\<rparr>) of
              Return s' \<Rightarrow> s'
            | Throw e s' \<Rightarrow> s'))"
| "step (IntersectionNotification entries) s =
     (if intersectionObserved s = [] then s else handleIntersection entries s)"
| "step (IntersectionCallbackFires lay) s =
     (case intersectionTasks s of
        [] \<Rightarrow> s
      | h # rest \<Rightarrow>
          (case intersectionCallback h lay (s\<lparr>intersectionTasks := rest\<rparr>) of
             Return s' \<Rightarrow> s'
           | Throw e s' \<Rightarrow> s'))"
| "step (ReflowListenerRuns lastVisibleElement lay) s =
     (if reflowListeners s = 0 then s
      else (case reflowListener lastVisibleElement lay s of
              Return s' \<Rightarrow> s'
            | Throw e s' \<Rightarrow> s'))"

text \<open>
  The events that come from the resize and the mutation observer: their
  notifications, and the callbacks these schedule.
\<close>

fun fromChangeObservers :: "event \<Rightarrow> bool" where
  "fromChangeObservers ResizeNotification = True"
| "fromChangeObservers MutationNotification = True"
| "fromChangeObservers (CallbackFires lay) = True"
| "fromChangeObservers (IntersectionNotification entries) = False"
| "fromChangeObservers (IntersectionCallbackFires lay) = False"
| "fromChangeObservers (ReflowListenerRuns lastVisibleElement lay) = False"

definition run :: "event list \<Rightarrow> overflow_list \<Rightarrow> overflow_list" where
  "run evs s = foldl (\<lambda>s' ev. step ev s') s evs"

subsection \<open>Reading a pass\<close>

text \<open>
  The items of a pass are the elements it measures: the elements of the default slot
  once the overflow slot has been emptied into it. An item overflows under a layout
  when its top lies below the top of the "more" slot. The buckets of a state are the
  elements assigned to the default and to the overflow slot.
\<close>

definition items :: "overflow_list \<Rightarrow> element list" where
  "items s = assignedElements defaultSlot_name (moveItemsToDefaultSlot (children s))"

definition overflows :: "layout \<Rightarrow> element \<Rightarrow> bool" where
  "overflows lay element = (top (elementRect lay (eid element)) > top (moreSlotRect lay))"

definition visibleBucket :: "overflow_list \<Rightarrow> element list" where
  "visibleBucket s = assignedElements defaultSlot_name (children s)"

definition overflowBucket :: "overflow_list \<Rightarrow> element list" where
  "overflowBucket s = assignedElements overflowSlot_name (children s)"

definition minimumReached :: "overflow_list \<Rightarrow> bool" where
  "minimumReached s = (attrs s ''minimum-reached'' \<noteq> None)"

text \<open>The slot of a child after a pass, as a function of the child before the pass.\<close>

definition slotAfter :: "layout \<Rightarrow> element \<Rightarrow> string" where
  "slotAfter lay element =
     (if slot element = defaultSlot_name \<or> slot element = overflowSlot_name
      then (if overflows lay element then overflowSlot_name else defaultSlot_name)
      else slot element)"

text \<open>
  What one pass does to one child: an element of the overflow slot goes back to the
  default slot (\<open>moved\<close>), the pinned element gets the order override and loses it
  (\<open>restyled\<close>), and an element of the default slot that overflows goes to the overflow
  slot (\<open>placed\<close>). The lemmas below show that the pass is the map of \<open>placed\<close> over
  the children.
\<close>

definition moved :: "element \<Rightarrow> element" where
  "moved element =
     (if slot element = overflowSlot_name
      then (if slot element \<noteq> defaultSlot_name
            then element\<lparr>slot := defaultSlot_name\<rparr> else element)
      else element)"

definition restyled :: "nat option \<Rightarrow> element \<Rightarrow> element" where
  "restyled p element =
     (case p of
        None \<Rightarrow> element
      | Some i \<Rightarrow> if eid element = i
                  then removeProperty ''order'' (setProperty ''order'' (Str ''-1'') element)
                  else element)"

definition placed :: "layout \<Rightarrow> nat option \<Rightarrow> element \<Rightarrow> element" where
  "placed lay p element =
     (let e = restyled p (moved element) in
      if slot e = defaultSlot_name
      then (if overflows lay element then e\<lparr>slot := overflowSlot_name\<rparr> else e)
      else e)"

text \<open>The state a call leaves, whether it returned or threw.\<close>

fun stateOf :: "outcome \<Rightarrow> overflow_list" where
  "stateOf (Return s) = s"
| "stateOf (Throw e s) = s"

subsection \<open>Example states\<close>

text \<open>
  An initialised list of three items with \<^verbatim>\<open>minimum-items="2"\<close>, a layout in which
  only the first item stays on the line of the "more" slot, and one in which all do.
\<close>

definition mkElement :: "nat \<Rightarrow> elem_class \<Rightarrow> element" where
  "mkElement i c =
     \<lparr>eid = i, cls = c, slot = '''', style = Map.empty, hidden = False,
      shadowrootmode = None\<rparr>"

definition exampleRoot :: shadow_root where
  "exampleRoot =
     \<lparr>q_defaultSlot = Some (mkElement 100 HTMLSlotElement),
      q_overflowSlot = Some (mkElement 101 HTMLSlotElement),
      q_moreSlot = Some (mkElement 102 HTMLSlotElement),
      q_overflow = Some (mkElement 103 HTMLOtherElement),
      q_list = Some (mkElement 104 HTMLUListElement),
      q_placeholder = Some (mkElement 105 HTMLLIElement)\<rparr>"

definition exampleRefs :: refs_rec where
  "exampleRefs =
     \<lparr>defaultSlot = mkElement 100 HTMLSlotElement,
      overflowSlot = mkElement 101 HTMLSlotElement,
      moreSlot = mkElement 102 HTMLSlotElement,
      overflow = mkElement 103 HTMLOtherElement,
      listEl = mkElement 104 HTMLUListElement,
      placeholder = mkElement 105 HTMLLIElement\<rparr>"

definition attachedList :: overflow_list where
  "attachedList =
     \<lparr>shadowRoot = Some exampleRoot, refs = None,
      children = [mkElement 1 HTMLLIElement, mkElement 2 HTMLLIElement,
                  mkElement 3 HTMLLIElement],
      attrs = [''minimum-items'' \<mapsto> ''2''], hostStyle = Map.empty,
      scheduled = False, resizeObserving = False, mutationObserving = False,
      intersectionObserved = [], reflowListeners = 0, dispatched = [], pending = 0,
      intersectionTasks = []\<rparr>"

definition exampleList :: overflow_list where
  "exampleList =
     attachedList\<lparr>refs := Some exampleRefs, resizeObserving := True,
                  mutationObserving := True, reflowListeners := 1\<rparr>"

definition narrowLayout :: layout where
  "narrowLayout =
     \<lparr>moreSlotRect = \<lparr>top = 0, width = 40\<rparr>,
      elementRect = (\<lambda>i. if i = 1 then \<lparr>top = 0, width = 50\<rparr>
                          else \<lparr>top = 24, width = 62\<rparr>)\<rparr>"

definition wideLayout :: layout where
  "wideLayout =
     \<lparr>moreSlotRect = \<lparr>top = 0, width = 40\<rparr>,
      elementRect = (\<lambda>i. \<lparr>top = 0, width = 50\<rparr>)\<rparr>"

text \<open>
  The example list after one pass under the narrow layout, the attached list right
  after \<^verbatim>\<open>#initialize\<close>, and an attached list whose shadow root lacks the placeholder.
\<close>

definition narrowPass :: overflow_list where
  "narrowPass = stateOf (reflowItems 0 None narrowLayout exampleList)"

text \<open>The attached list as an element that carries \<^verbatim>\<open>disabled="false"\<close> at its upgrade.\<close>

definition upgradedList :: overflow_list where
  "upgradedList = attachedList\<lparr>attrs := [''disabled'' \<mapsto> ''false'']\<rparr>"

definition initialisedList :: overflow_list where
  "initialisedList = stateOf (initialize attachedList)"

definition brokenList :: overflow_list where
  "brokenList = attachedList\<lparr>shadowRoot := Some (exampleRoot\<lparr>q_placeholder := None\<rparr>)\<rparr>"

text \<open>
  Reading the list, the placeholder and the "more" slot of a state; before
  \<^verbatim>\<open>#initialize\<close> there is nothing to read.
\<close>

definition listStyle :: "overflow_list \<Rightarrow> string \<Rightarrow> css_value option" where
  "listStyle s = (case refs s of None \<Rightarrow> Map.empty | Some r \<Rightarrow> style (listEl r))"

definition placeholderStyle :: "overflow_list \<Rightarrow> string \<Rightarrow> css_value option" where
  "placeholderStyle s =
     (case refs s of None \<Rightarrow> Map.empty | Some r \<Rightarrow> style (placeholder r))"

definition placeholderHidden :: "overflow_list \<Rightarrow> bool" where
  "placeholderHidden s = (case refs s of None \<Rightarrow> False | Some r \<Rightarrow> hidden (placeholder r))"

definition moreSlotStyle :: "overflow_list \<Rightarrow> string \<Rightarrow> css_value option" where
  "moreSlotStyle s = (case refs s of None \<Rightarrow> Map.empty | Some r \<Rightarrow> style (moreSlot r))"

definition moreSlotHidden :: "overflow_list \<Rightarrow> bool" where
  "moreSlotHidden s = (case refs s of None \<Rightarrow> False | Some r \<Rightarrow> hidden (moreSlot r))"

section \<open>Properties\<close>

subsection \<open>The measuring loop\<close>

lemma foldl_classify_overflowing:
  "overflowingElements (foldl (classify lay) b es) =
     overflowingElements b @ filter (overflows lay) es"
  by (induction es arbitrary: b) (simp_all add: classify_def overflows_def Let_def)

lemma foldl_classify_visible:
  "visibleElements (foldl (classify lay) b es) =
     visibleElements b @ filter (\<lambda>e. \<not> overflows lay e) es"
  by (induction es arbitrary: b) (simp_all add: classify_def overflows_def Let_def)

lemma foldl_classify_hasOverflow:
  "hasOverflow (foldl (classify lay) b es) =
     (hasOverflow b \<or> filter (overflows lay) es \<noteq> [])"
  by (induction es arbitrary: b) (simp_all add: classify_def overflows_def Let_def)

lemma foldl_classify_width:
  "placeholderWidth (foldl (classify lay) b es) =
     (if overflowingElements b = []
      then (case filter (overflows lay) es of
              [] \<Rightarrow> placeholderWidth b
            | e # _ \<Rightarrow> width (elementRect lay (eid e)))
      else placeholderWidth b)"
  by (induction es arbitrary: b)
     (simp_all add: classify_def overflows_def Let_def split: list.splits)

lemmas foldl_classify =
  foldl_classify_overflowing foldl_classify_visible
  foldl_classify_hasOverflow foldl_classify_width

subsection \<open>The children after a pass\<close>

lemma children_unobserve [simp]: "children (unobserveChanges s) = children s"
  by (simp add: unobserveChanges_def)

lemma children_updateMinimumReached [simp]:
  "children (updateMinimumReached v s) = children s"
  by (simp add: updateMinimumReached_def Let_def split: option.splits)

lemma refs_updateMinimumReached [simp]: "refs (updateMinimumReached v s) = refs s"
  by (simp add: updateMinimumReached_def Let_def split: option.splits)

lemma hostStyle_updateMinimumReached [simp]:
  "hostStyle (updateMinimumReached v s) = hostStyle s"
  by (simp add: updateMinimumReached_def Let_def split: option.splits)

lemma reflowItems_empty:
  assumes "refs s = Some r" "items s = []"
  shows "reflowItems h p lay s =
     Return (observeChanges
       ((unobserveChanges s)\<lparr>children := moveItemsToDefaultSlot (children s)\<rparr>))"
  using assms unfolding reflowItems_def items_def
  by (simp add: Let_def)

lemma reflowItems_uninitialised:
  "refs s = None \<Longrightarrow> reflowItems h p lay s = Throw TypeError s"
  by (simp add: reflowItems_def)

lemma reflow_total: "refs s = Some r \<Longrightarrow> \<exists>s'. reflowItems h p lay s = Return s'"
  by (simp add: reflowItems_def Let_def)

lemma reflow_observing:
  "reflowItems h p lay s = Return s' \<Longrightarrow> resizeObserving s' \<and> mutationObserving s'"
  by (auto simp: reflowItems_def Let_def observeChanges_def split: option.splits if_splits)

lemma reflow_children:
  assumes "refs s = Some r" "items s \<noteq> []" "reflowItems h p lay s = Return s'"
  shows "children s' = assignSlots (filter (overflows lay) (items s))
           (styleLastVisible p (removeProperty ''order'')
              (styleLastVisible p (setProperty ''order'' (Str ''-1''))
                 (moveItemsToDefaultSlot (children s))))"
  using assms unfolding reflowItems_def items_def
  by (auto simp: Let_def observeChanges_def foldl_classify noBuckets_def overflows_def)

lemma moveItems_map: "moveItemsToDefaultSlot cs = map moved cs"
  by (simp add: moveItemsToDefaultSlot_def moved_def)

lemma eid_moved [simp]: "eid (moved c) = eid c"
  by (simp add: moved_def)

lemma slot_moved:
  "slot (moved c) = (if slot c = overflowSlot_name then defaultSlot_name else slot c)"
  by (simp add: moved_def)

lemma overflows_moved [simp]: "overflows lay (moved c) = overflows lay c"
  by (simp add: overflows_def)

lemma restyled_None: "restyled None = (\<lambda>element. element)"
  by (rule ext) (simp add: restyled_def)

lemma styleLastVisible_twice:
  "styleLastVisible p (removeProperty ''order'')
     (styleLastVisible p (setProperty ''order'' (Str ''-1'')) cs) = map (restyled p) cs"
proof (cases p)
  case None
  then show ?thesis by (simp add: styleLastVisible_def restyled_None)
next
  case (Some i)
  then show ?thesis
    by (simp add: styleLastVisible_def restyled_def setProperty_def removeProperty_def)
qed

lemma eid_restyled [simp]: "eid (restyled p c) = eid c"
  by (cases p) (simp_all add: restyled_def setProperty_def removeProperty_def)

lemma slot_restyled [simp]: "slot (restyled p c) = slot c"
  by (cases p) (simp_all add: restyled_def setProperty_def removeProperty_def)

lemma items_empty_slots:
  assumes "items s = []" "c \<in> set (children s)"
  shows "slot c \<noteq> defaultSlot_name \<and> slot c \<noteq> overflowSlot_name"
proof -
  from assms have "slot (moved c) \<noteq> defaultSlot_name"
    by (simp add: items_def assignedElements_def moveItems_map filter_empty_conv)
  then show ?thesis
    by (simp add: slot_moved split: if_splits)
qed

lemma mem_overflowing_eids:
  assumes "c \<in> set (children s)" "slot (moved c) = defaultSlot_name"
  shows "eid c \<in> eid ` {x \<in> set (items s). overflows lay x} \<longleftrightarrow> overflows lay c"
proof
  assume "eid c \<in> eid ` {x \<in> set (items s). overflows lay x}"
  then obtain e where "overflows lay e" "eid e = eid c" by auto
  then show "overflows lay c" by (simp add: overflows_def)
next
  assume "overflows lay c"
  with assms have "moved c \<in> {x \<in> set (items s). overflows lay x}"
    by (simp add: items_def assignedElements_def moveItems_map)
  then have "eid (moved c) \<in> eid ` {x \<in> set (items s). overflows lay x}"
    by (rule imageI)
  then show "eid c \<in> eid ` {x \<in> set (items s). overflows lay x}" by simp
qed

lemma eid_placed [simp]: "eid (placed lay p c) = eid c"
  by (simp add: placed_def Let_def)

lemma slot_placed [simp]: "slot (placed lay p c) = slotAfter lay c"
  by (simp add: placed_def Let_def slotAfter_def slot_moved
      defaultSlot_name_def overflowSlot_name_def)

lemma assignSlots_placed:
  "assignSlots (filter (overflows lay) (items s))
     (map (restyled p) (map moved (children s))) = map (placed lay p) (children s)"
  unfolding assignSlots_def map_map
proof (rule map_cong[OF refl])
  fix c assume c: "c \<in> set (children s)"
  show "((\<lambda>element.
            if slot element = defaultSlot_name
            then (let targetSlot =
                        (if eid element \<in> set (map eid (filter (overflows lay) (items s)))
                         then overflowSlot_name else defaultSlot_name)
                  in if slot element \<noteq> targetSlot
                     then element\<lparr>slot := targetSlot\<rparr> else element)
            else element) \<circ> (restyled p \<circ> moved)) c = placed lay p c"
  proof (cases "slot (moved c) = defaultSlot_name")
    case True
    then show ?thesis
      using mem_overflowing_eids[OF c True, of lay]
      by (simp add: placed_def Let_def defaultSlot_name_def overflowSlot_name_def)
  next
    case False
    then show ?thesis by (simp add: placed_def Let_def)
  qed
qed

lemma reflow_children_nonempty:
  assumes "refs s = Some r" "items s \<noteq> []" "reflowItems h p lay s = Return s'"
  shows "children s' = map (placed lay p) (children s)"
  using reflow_children[OF assms]
  unfolding styleLastVisible_twice moveItems_map assignSlots_placed .

lemma reflow_children_empty:
  assumes "refs s = Some r" "items s = []" "reflowItems h p lay s = Return s'"
  shows "children s' = children s"
proof -
  have "map moved (children s) = map (\<lambda>c. c) (children s)"
    by (rule map_cong[OF refl])
       (use items_empty_slots[OF assms(2)] in \<open>simp add: moved_def\<close>)
  moreover have "s' = observeChanges
      ((unobserveChanges s)\<lparr>children := moveItemsToDefaultSlot (children s)\<rparr>)"
    using assms(3) reflowItems_empty[OF assms(1,2), of h p lay] by simp
  ultimately show ?thesis
    by (simp add: observeChanges_def moveItems_map)
qed

text \<open>
  In both cases the children after the pass are the children before it, one by one:
  same identity, and the slot that \<open>slotAfter\<close> computes.
\<close>

lemma reflow_children_shape:
  assumes "refs s = Some r" "reflowItems h p lay s = Return s'"
  shows "\<exists>k. children s' = map k (children s) \<and>
           (\<forall>c\<in>set (children s). eid (k c) = eid c \<and> slot (k c) = slotAfter lay c)"
proof (cases "items s = []")
  case True
  have "children s' = map (\<lambda>c. c) (children s)"
    using reflow_children_empty[OF assms(1) True assms(2)] by simp
  moreover have "\<forall>c\<in>set (children s). eid c = eid c \<and> slot c = slotAfter lay c"
    using items_empty_slots[OF True] by (simp add: slotAfter_def)
  ultimately show ?thesis by blast
next
  case False
  have "children s' = map (placed lay p) (children s)"
    by (rule reflow_children_nonempty[OF assms(1) False assms(2)])
  then show ?thesis by (intro exI[of _ "placed lay p"]) simp
qed

lemma reflow_slots:
  assumes "refs s = Some r" "reflowItems h p lay s = Return s'"
  shows "map slot (children s') = map (slotAfter lay) (children s)"
    and "map eid (children s') = map eid (children s)"
proof -
  obtain k where k: "children s' = map k (children s)"
    "\<forall>c\<in>set (children s). eid (k c) = eid c \<and> slot (k c) = slotAfter lay c"
    using reflow_children_shape[OF assms] by blast
  show "map slot (children s') = map (slotAfter lay) (children s)"
    using k by simp
  show "map eid (children s') = map eid (children s)"
    using k by simp
qed

lemma filter_shape:
  assumes "\<forall>c\<in>set cs. eid (k c) = eid c \<and> slot (k c) = f c"
  shows "map eid (filter (\<lambda>c. slot c = n) (map k cs)) = map eid (filter (\<lambda>c. f c = n) cs)"
  using assms by (induction cs) simp_all

lemma overflowing_items_eids:
  "map eid (filter (overflows lay) (assignedElements defaultSlot_name (map moved cs))) =
     map eid (filter (\<lambda>c. slotAfter lay c = overflowSlot_name) cs)"
  by (induction cs)
     (simp_all add: assignedElements_def slotAfter_def slot_moved
        defaultSlot_name_def overflowSlot_name_def)

lemma visible_items_eids:
  "map eid (filter (\<lambda>e. \<not> overflows lay e)
       (assignedElements defaultSlot_name (map moved cs))) =
     map eid (filter (\<lambda>c. slotAfter lay c = defaultSlot_name) cs)"
  by (induction cs)
     (simp_all add: assignedElements_def slotAfter_def slot_moved
        defaultSlot_name_def overflowSlot_name_def)

text \<open>
  The buckets of the state after a pass are the overflowing and the other items of the
  pass, in order.
\<close>

lemma reflow_buckets:
  assumes "refs s = Some r" "reflowItems h p lay s = Return s'"
  shows "map eid (overflowBucket s') = map eid (filter (overflows lay) (items s))"
    and "map eid (visibleBucket s') = map eid (filter (\<lambda>e. \<not> overflows lay e) (items s))"
proof -
  obtain k where k: "children s' = map k (children s)"
    "\<forall>c\<in>set (children s). eid (k c) = eid c \<and> slot (k c) = slotAfter lay c"
    using reflow_children_shape[OF assms] by blast
  show "map eid (overflowBucket s') = map eid (filter (overflows lay) (items s))"
    unfolding overflowBucket_def assignedElements_def k(1) filter_shape[OF k(2)]
    by (simp add: items_def moveItems_map overflowing_items_eids)
  show "map eid (visibleBucket s') = map eid (filter (\<lambda>e. \<not> overflows lay e) (items s))"
    unfolding visibleBucket_def assignedElements_def k(1) filter_shape[OF k(2)]
    by (simp add: items_def moveItems_map visible_items_eids)
qed

lemma reflow_bucket_sizes:
  assumes "refs s = Some r" "reflowItems h p lay s = Return s'"
  shows "length (overflowBucket s') = length (filter (overflows lay) (items s))"
    and "length (visibleBucket s') = length (filter (\<lambda>e. \<not> overflows lay e) (items s))"
    and "overflowBucket s' = [] \<longleftrightarrow> filter (overflows lay) (items s) = []"
proof -
  show "length (overflowBucket s') = length (filter (overflows lay) (items s))"
    using arg_cong[OF reflow_buckets(1)[OF assms], of length] by simp
  show "length (visibleBucket s') = length (filter (\<lambda>e. \<not> overflows lay e) (items s))"
    using arg_cong[OF reflow_buckets(2)[OF assms], of length] by simp
  show "overflowBucket s' = [] \<longleftrightarrow> filter (overflows lay) (items s) = []"
    using reflow_buckets(1)[OF assms] by (metis map_is_Nil_conv)
qed

subsection \<open>The rest of the state after a pass\<close>

lemma minimumItems_cong: "attrs s = attrs t \<Longrightarrow> minimumItems s = minimumItems t"
  by (simp add: minimumItems_def)

lemma reflow_dispatched_nonempty:
  assumes "refs s = Some r" "items s \<noteq> []" "reflowItems h p lay s = Return s'"
  shows "dispatched s' = dispatched s @
     (if filter (overflows lay) (items s) = [] then []
      else (case minimumItems s of None \<Rightarrow> []
            | Some m \<Rightarrow> [js_less (length (filter (\<lambda>e. \<not> overflows lay e) (items s))) m]))"
  using assms unfolding reflowItems_def items_def
  by (auto simp: Let_def observeChanges_def unobserveChanges_def foldl_classify noBuckets_def
      updateMinimumReached_def minimumItems_def split: option.splits)

lemma reflow_attrs_nonempty:
  assumes "refs s = Some r" "items s \<noteq> []" "reflowItems h p lay s = Return s'"
  shows "attrs s' =
     (if filter (overflows lay) (items s) = [] then attrs s
      else (case minimumItems s of None \<Rightarrow> attrs s
            | Some m \<Rightarrow>
                if js_less (length (filter (\<lambda>e. \<not> overflows lay e) (items s))) m
                then (attrs s)(''minimum-reached'' \<mapsto> '''')
                else (attrs s)(''minimum-reached'' := None)))"
  using assms unfolding reflowItems_def items_def
  by (auto simp: Let_def observeChanges_def unobserveChanges_def foldl_classify noBuckets_def
      updateMinimumReached_def minimumItems_def split: option.splits)

lemma reflow_refs:
  assumes "refs s = Some r" "items s \<noteq> []" "reflowItems h p lay s = Return s'"
  shows "refs s' = Some (r\<lparr>
     moreSlot :=
       (if filter (overflows lay) (items s) = []
        then (setProperty ''order'' (Str ''-1'') (moreSlot r))\<lparr>hidden := True\<rparr>
        else (removeProperty ''order''
                ((setProperty ''order'' (Str ''-1'') (moreSlot r))\<lparr>hidden := False\<rparr>))
             \<lparr>hidden := False\<rparr>),
     listEl :=
       setProperty ''overflow'' (Str ''unset'')
         (setProperty ''counter-reset''
            (CounterReset (length (filter (overflows lay) (items s))))
            (setProperty ''flex-wrap'' (Str ''wrap'')
               (if h > 0 then setProperty ''height'' (Px h) (listEl r) else listEl r))),
     placeholder :=
       (case filter (overflows lay) (items s) of
          [] \<Rightarrow> (placeholder r)\<lparr>hidden := True\<rparr>
        | e # _ \<Rightarrow> (setProperty ''width'' (Px (width (elementRect lay (eid e))))
                      ((placeholder r)\<lparr>hidden := True\<rparr>))\<lparr>hidden := False\<rparr>)\<rparr>)"
  using assms unfolding reflowItems_def items_def
  by (auto simp: Let_def observeChanges_def unobserveChanges_def foldl_classify noBuckets_def
      setProperty_def removeProperty_def split: list.splits)

lemma reflow_hostStyle:
  assumes "refs s = Some r" "items s \<noteq> []" "reflowItems h p lay s = Return s'"
  shows "hostStyle s' = (hostStyle s)(''--overflow-count'' \<mapsto>
           Dec (length (filter (overflows lay) (items s))))"
  using assms unfolding reflowItems_def items_def
  by (auto simp: Let_def observeChanges_def unobserveChanges_def foldl_classify noBuckets_def)

lemma reflow_empty_frame:
  assumes "refs s = Some r" "items s = []" "reflowItems h p lay s = Return s'"
  shows "dispatched s' = dispatched s" "attrs s' = attrs s" "refs s' = refs s"
    "hostStyle s' = hostStyle s"
  using assms(3) reflowItems_empty[OF assms(1,2), of h p lay]
  by (auto simp: observeChanges_def unobserveChanges_def)

lemma reflow_dispatched:
  assumes "refs s = Some r" "reflowItems h p lay s = Return s'"
  shows "dispatched s' = dispatched s @
     (if filter (overflows lay) (items s) = [] then []
      else (case minimumItems s of None \<Rightarrow> []
            | Some m \<Rightarrow> [js_less (length (filter (\<lambda>e. \<not> overflows lay e) (items s))) m]))"
proof (cases "items s = []")
  case True
  then show ?thesis using reflow_empty_frame(1)[OF assms(1) True assms(2)] by simp
next
  case False
  then show ?thesis by (rule reflow_dispatched_nonempty[OF assms(1) _ assms(2)])
qed

lemma reflow_attrs:
  assumes "refs s = Some r" "reflowItems h p lay s = Return s'"
  shows "attrs s' =
     (if filter (overflows lay) (items s) = [] then attrs s
      else (case minimumItems s of None \<Rightarrow> attrs s
            | Some m \<Rightarrow>
                if js_less (length (filter (\<lambda>e. \<not> overflows lay e) (items s))) m
                then (attrs s)(''minimum-reached'' \<mapsto> '''')
                else (attrs s)(''minimum-reached'' := None)))"
proof (cases "items s = []")
  case True
  then show ?thesis using reflow_empty_frame(2)[OF assms(1) True assms(2)] by simp
next
  case False
  then show ?thesis by (rule reflow_attrs_nonempty[OF assms(1) _ assms(2)])
qed

text \<open>The definitions that evaluate a pass on the example states.\<close>

lemmas run_defs =
  reflowItems_def Let_def exampleList_def attachedList_def exampleRefs_def exampleRoot_def
  mkElement_def narrowLayout_def wideLayout_def unobserveChanges_def observeChanges_def
  moveItemsToDefaultSlot_def assignedElements_def defaultSlot_name_def overflowSlot_name_def
  setProperty_def removeProperty_def styleLastVisible_def classify_def noBuckets_def
  assignSlots_def updateMinimumReached_def minimumItems_def parseInt_def isWhiteSpace_def
  isDigit_def digitValue_def visibleBucket_def overflowBucket_def minimumReached_def

lemmas read_defs =
  listStyle_def placeholderStyle_def placeholderHidden_def moreSlotStyle_def
  moreSlotHidden_def

subsection \<open>Showing all, detaching and the scheduled callback\<close>

lemma overflowBucket_moved: "assignedElements overflowSlot_name (map moved cs) = []"
  by (induction cs)
     (simp_all add: assignedElements_def slot_moved defaultSlot_name_def overflowSlot_name_def)

lemma showAll_result:
  assumes "refs s = Some r"
  shows "\<exists>s'. showAll lay s = Return s' \<and> \<not> resizeObserving s' \<and> \<not> mutationObserving s' \<and>
           pending s' = pending s \<and> children s' = moveItemsToDefaultSlot (children s) \<and>
           attrs s' ''disabled'' = Some ''true''"
  using assms
  by (simp add: showAll_def Let_def attributeChangedCallback_def reset_def unobserveChanges_def)

lemma step_idle:
  assumes "\<not> resizeObserving s" "\<not> mutationObserving s" "pending s = 0"
    "fromChangeObservers ev"
  shows "step ev s = s"
  using assms by (cases ev) simp_all

lemma run_idle:
  assumes "\<not> resizeObserving s" "\<not> mutationObserving s" "pending s = 0"
    "list_all fromChangeObservers evs"
  shows "run evs s = s"
  using assms(4) unfolding run_def
  by (induction evs) (simp_all add: step_idle[OF assms(1,2,3)])

lemma callback_after_detach:
  assumes "refs s = Some r" "\<not> scheduled s" "reflowItems 0 None lay
             ((disconnectedCallback (handleChange s))\<lparr>pending := pending s\<rparr>) = Return s'"
  shows "step (CallbackFires lay) (disconnectedCallback (handleChange s)) =
           s'\<lparr>scheduled := False\<rparr>"
  using assms
  by (simp add: handleChange_def disconnectedCallback_def scheduledCallback_def)

subsection \<open>The first overflowing item and the pinned item\<close>

lemma first_overflowing_eid:
  assumes "map eid bucket = map eid ov" "ov = e # rest"
  shows "eid (hd bucket) = eid e"
  using assms by (cases bucket) simp_all

lemma style_placed_order:
  assumes "Some (eid c) = p"
  shows "style (placed lay p c) ''order'' = None"
  using assms
  by (auto simp: placed_def Let_def restyled_def setProperty_def removeProperty_def)

section \<open>The claims\<close>

subsection \<open>C1: the minimum-reached notification\<close>

text \<open>
  C1 says that the \<^verbatim>\<open>OverflowMinimumEvent\<close> is dispatched once per change of the
  minimum-reached state, and that a second pass over an unchanged layout dispatches
  nothing. The code keeps no previous state to compare with: two passes of the example
  list under the same narrow layout dispatch the event twice, with the same payload,
  while the minimum-reached attribute stays set.
\<close>

theorem second_reflow_dispatches_duplicate:
  "dispatched narrowPass = [True] \<and> minimumReached narrowPass \<and>
   dispatched (stateOf (reflowItems 0 None narrowLayout narrowPass)) = [True, True] \<and>
   minimumReached (stateOf (reflowItems 0 None narrowLayout narrowPass))"
  by (simp add: narrowPass_def run_defs)

text \<open>
  C1, as the code has it: on an initialised component, every reflow pass in which at
  least one item overflows while \<^verbatim>\<open>minimum-items\<close> is set dispatches exactly one
  \<^verbatim>\<open>OverflowMinimumEvent\<close>, whose payload says whether the visible bucket is smaller
  than \<^verbatim>\<open>minimumItems\<close>, whether or not the state changed; a pass in which no item
  overflows, or with \<^verbatim>\<open>minimum-items\<close> unset, dispatches none.
\<close>

theorem reflow_dispatches_on_every_overflowing_pass:
  assumes "refs s \<noteq> None"
  shows "\<exists>s'. reflowItems listHeight lastVisibleElement lay s = Return s' \<and>
           dispatched s' = dispatched s @
             (case minimumItems s of
                None \<Rightarrow> []
              | Some m \<Rightarrow> if overflowBucket s' = [] then []
                          else [js_less (length (visibleBucket s')) m])"
proof -
  obtain r where r: "refs s = Some r" using assms by blast
  obtain s' where s': "reflowItems listHeight lastVisibleElement lay s = Return s'"
    using reflow_total[OF r] by blast
  have "dispatched s' = dispatched s @
             (case minimumItems s of
                None \<Rightarrow> []
              | Some m \<Rightarrow> if overflowBucket s' = [] then []
                          else [js_less (length (visibleBucket s')) m])"
    unfolding reflow_dispatched[OF r s'] reflow_bucket_sizes[OF r s']
    by (simp split: option.splits)
  with s' show ?thesis by blast
qed

text \<open>The example list under the narrow and under the wide layout.\<close>

theorem reflow_dispatches_on_every_overflowing_pass_witness:
  "refs exampleList \<noteq> None \<and>
   (\<exists>s'. reflowItems 0 None narrowLayout exampleList = Return s' \<and>
         dispatched s' = [True] \<and> length (visibleBucket s') = 1 \<and>
         length (overflowBucket s') = 2) \<and>
   (\<exists>s'. reflowItems 0 None wideLayout exampleList = Return s' \<and>
         dispatched s' = [] \<and> length (visibleBucket s') = 3 \<and> overflowBucket s' = [])"
  using reflow_dispatches_on_every_overflowing_pass
          [of exampleList 0 None narrowLayout]
        reflow_dispatches_on_every_overflowing_pass
          [of exampleList 0 None wideLayout]
  by (simp add: run_defs)

subsection \<open>C2: the minimum-reached attribute\<close>

text \<open>
  C2 says that after every pass, also one in which nothing overflows, the
  minimum-reached attribute is set exactly when \<^verbatim>\<open>minimumItems\<close> is set and the visible
  bucket is smaller. The pass calls \<^verbatim>\<open>#updateMinimumReached\<close> only behind
  \<^verbatim>\<open>hasOverflow &&\<close>: when the example list is widened after a narrow pass, all three
  items are visible, \<^verbatim>\<open>minimumItems\<close> is 2, and the attribute is still set.
\<close>

theorem minimum_reached_stale_without_overflow:
  "minimumItems (stateOf (reflowItems 0 None wideLayout narrowPass)) = Some (Num 2) \<and>
   length (visibleBucket (stateOf (reflowItems 0 None wideLayout narrowPass))) = 3 \<and>
   minimumReached (stateOf (reflowItems 0 None wideLayout narrowPass))"
  by (simp add: narrowPass_def run_defs)

text \<open>
  C2, as the code has it: after a pass of an initialised component in which at least
  one item overflows while \<^verbatim>\<open>minimum-items\<close> is set, the minimum-reached attribute is
  present exactly when the visible bucket is smaller than \<^verbatim>\<open>minimumItems\<close>; a pass in
  which no item overflows, or with \<^verbatim>\<open>minimum-items\<close> unset, leaves the attribute as it
  was.
\<close>

theorem minimum_reached_updated_only_on_overflow:
  assumes "refs s \<noteq> None"
  shows "\<exists>s'. reflowItems listHeight lastVisibleElement lay s = Return s' \<and>
           (case minimumItems s of
              None \<Rightarrow> minimumReached s' = minimumReached s
            | Some m \<Rightarrow>
                if overflowBucket s' = [] then minimumReached s' = minimumReached s
                else minimumReached s' = js_less (length (visibleBucket s')) m)"
proof -
  obtain r where r: "refs s = Some r" using assms by blast
  obtain s' where s': "reflowItems listHeight lastVisibleElement lay s = Return s'"
    using reflow_total[OF r] by blast
  have "case minimumItems s of
              None \<Rightarrow> minimumReached s' = minimumReached s
            | Some m \<Rightarrow>
                if overflowBucket s' = [] then minimumReached s' = minimumReached s
                else minimumReached s' = js_less (length (visibleBucket s')) m"
    unfolding minimumReached_def reflow_attrs[OF r s'] reflow_bucket_sizes[OF r s']
    by (simp split: option.splits)
  with s' show ?thesis by blast
qed

theorem minimum_reached_updated_only_on_overflow_witness:
  "refs exampleList \<noteq> None \<and>
   (\<exists>s'. reflowItems 0 None narrowLayout exampleList = Return s' \<and>
         minimumItems exampleList = Some (Num 2) \<and> length (visibleBucket s') = 1 \<and>
         minimumReached s' \<and> \<not> minimumReached exampleList)"
  using minimum_reached_updated_only_on_overflow
          [of exampleList 0 None narrowLayout]
  by (simp add: run_defs)

subsection \<open>C3: initialisation on a broken structure\<close>

text \<open>
  C3 says that \<^verbatim>\<open>#initialize\<close> returns silently when a required element of the
  shadow root is missing. It throws: with the placeholder missing, the call ends in
  the error \<^verbatim>\<open>Invalid element types in <OverflowList />\<close>.
\<close>

theorem initialize_not_silent:
  "initialize brokenList = Throw InvalidElementTypes brokenList"
  by (simp add: initialize_def brokenList_def attachedList_def exampleRoot_def mkElement_def
      isSlot_def isHTML_def isUList_def isLI_def isHTMLElement_def)

text \<open>
  C3, as the code has it: without a shadow root \<^verbatim>\<open>#initialize\<close> throws
  \<^verbatim>\<open>Missing shadow root\<close>; with one, it throws \<^verbatim>\<open>Invalid element types\<close> when any of
  the default slot, the overflow slot, the "more" slot, the overflow part, the list or
  the placeholder is absent or of the wrong class, and otherwise returns with
  \<^verbatim>\<open>#refs\<close> set. A throw leaves the state as it was.
\<close>

theorem initialize_throws_on_invalid_structure:
  "(shadowRoot s = None \<longrightarrow> initialize s = Throw MissingShadowRoot s) \<and>
   (\<forall>sr. shadowRoot s = Some sr \<longrightarrow>
      (if isSlot (q_defaultSlot sr) \<and> isSlot (q_overflowSlot sr) \<and> isSlot (q_moreSlot sr) \<and>
          isHTML (q_overflow sr) \<and> isUList (q_list sr) \<and> isLI (q_placeholder sr)
       then \<exists>s'. initialize s = Return s' \<and> refs s' \<noteq> None
       else initialize s = Throw InvalidElementTypes s))"
  by (auto simp: initialize_def Let_def isSlot_def isHTML_def isUList_def isLI_def
      split: option.splits)

text \<open>
  The attached example list, the same list without a shadow root, and the same list
  with a \<^verbatim>\<open>div\<close> where the \<^verbatim>\<open>ul\<close> should be.
\<close>

theorem initialize_throws_on_invalid_structure_witness:
  "shadowRoot attachedList = Some exampleRoot \<and>
   (\<exists>s'. initialize attachedList = Return s' \<and> refs s' = Some exampleRefs \<and>
         intersectionObserved s' = [1, 3] \<and> reflowListeners s' = 1) \<and>
   shadowRoot (attachedList\<lparr>shadowRoot := None\<rparr>) = None \<and>
   initialize (attachedList\<lparr>shadowRoot := None\<rparr>) =
     Throw MissingShadowRoot (attachedList\<lparr>shadowRoot := None\<rparr>) \<and>
   \<not> isUList (q_list (exampleRoot\<lparr>q_list := Some (mkElement 104 HTMLOtherElement)\<rparr>)) \<and>
   initialize (attachedList\<lparr>shadowRoot :=
       Some (exampleRoot\<lparr>q_list := Some (mkElement 104 HTMLOtherElement)\<rparr>)\<rparr>) =
     Throw InvalidElementTypes (attachedList\<lparr>shadowRoot :=
       Some (exampleRoot\<lparr>q_list := Some (mkElement 104 HTMLOtherElement)\<rparr>)\<rparr>)"
  using initialize_throws_on_invalid_structure [of attachedList]
    initialize_throws_on_invalid_structure [of "attachedList\<lparr>shadowRoot := None\<rparr>"]
    initialize_throws_on_invalid_structure [of "attachedList\<lparr>shadowRoot :=
       Some (exampleRoot\<lparr>q_list := Some (mkElement 104 HTMLOtherElement)\<rparr>)\<rparr>"]
  by (simp add: initialize_def attachedList_def exampleRoot_def exampleRefs_def mkElement_def
      isSlot_def isHTML_def isUList_def isLI_def isHTMLElement_def assignedElements_def
      defaultSlot_name_def observeTarget_def)

subsection \<open>C4: detaching while a reflow is scheduled\<close>

text \<open>
  C4 says that a reflow scheduled by a notification does not run when the component
  is detached before the callback fires. \<^verbatim>\<open>disconnectedCallback\<close> disconnects the
  three observers and cancels nothing: in the example the callback fires after the
  detach, moves two items to the overflow slot and connects the resize and the
  mutation observer again.
\<close>

theorem detach_does_not_cancel_reflow:
  "map slot (children (disconnectedCallback (step ResizeNotification exampleList))) =
     ['''', '''', ''''] \<and>
   \<not> resizeObserving (disconnectedCallback (step ResizeNotification exampleList)) \<and>
   map slot (children (step (CallbackFires narrowLayout)
       (disconnectedCallback (step ResizeNotification exampleList)))) =
     ['''', ''overflow'', ''overflow''] \<and>
   resizeObserving (step (CallbackFires narrowLayout)
       (disconnectedCallback (step ResizeNotification exampleList))) \<and>
   mutationObserving (step (CallbackFires narrowLayout)
       (disconnectedCallback (step ResizeNotification exampleList)))"
  by (simp add: run_defs handleChange_def disconnectedCallback_def scheduledCallback_def)

text \<open>
  C4, as the code has it: when a notification has scheduled a reflow on an initialised
  component and the component is detached before the callback fires,
  \<^verbatim>\<open>disconnectedCallback\<close> only disconnects the observers; the callback still runs a
  full reflow pass on the detached component, which assigns the slots from the layout
  measured then and reconnects the resize and the mutation observer, and then clears
  the scheduled flag.
\<close>

theorem scheduled_reflow_runs_after_detach:
  assumes "refs s \<noteq> None" "\<not> scheduled s"
  shows "\<exists>s'. reflowItems 0 None lay
               ((disconnectedCallback (handleChange s))\<lparr>pending := pending s\<rparr>) = Return s' \<and>
           step (CallbackFires lay) (disconnectedCallback (handleChange s)) =
             s'\<lparr>scheduled := False\<rparr> \<and>
           resizeObserving s' \<and> mutationObserving s' \<and>
           map slot (children s') = map (slotAfter lay) (children s)"
proof -
  let ?d = "(disconnectedCallback (handleChange s))\<lparr>pending := pending s\<rparr>"
  obtain r where r: "refs s = Some r" using assms(1) by blast
  have rd: "refs ?d = Some r" and cd: "children ?d = children s"
    using r by (simp_all add: disconnectedCallback_def handleChange_def)
  obtain s' where s': "reflowItems 0 None lay ?d = Return s'"
    using reflow_total[OF rd] by blast
  have "map slot (children s') = map (slotAfter lay) (children s)"
    using reflow_slots(1)[OF rd s'] cd by simp
  with s' reflow_observing[OF s'] callback_after_detach[OF r assms(2) s']
  show ?thesis by blast
qed

text \<open>
  The example list, detached between the notification and the callback.
\<close>

theorem scheduled_reflow_runs_after_detach_witness:
  "refs exampleList \<noteq> None \<and> \<not> scheduled exampleList \<and>
   \<not> resizeObserving (disconnectedCallback (handleChange exampleList)) \<and>
   resizeObserving
     (step (CallbackFires narrowLayout) (disconnectedCallback (handleChange exampleList))) \<and>
   map slot (children
     (step (CallbackFires narrowLayout) (disconnectedCallback (handleChange exampleList)))) =
     ['''', ''overflow'', ''overflow'']"
  using scheduled_reflow_runs_after_detach [of exampleList narrowLayout]
  by (simp add: run_defs handleChange_def disconnectedCallback_def scheduledCallback_def
      slotAfter_def overflows_def)

subsection \<open>C5: notifications after showAll\<close>

text \<open>
  C5 says that after \<^verbatim>\<open>showAll()\<close> no reflow moves an item to the overflow bucket
  until the list is enabled again. Nothing in \<^verbatim>\<open>#handleChange\<close> or \<^verbatim>\<open>#reflowItems\<close>
  reads the \<^verbatim>\<open>disabled\<close> attribute; \<^verbatim>\<open>showAll()\<close> stops the notifications by
  disconnecting the resize and the mutation observer, and disarms nothing else. A
  callback that was scheduled before \<^verbatim>\<open>showAll()\<close> still fires: in the example it
  moves two items to the overflow slot while \<^verbatim>\<open>disabled\<close> is \<^verbatim>\<open>"true"\<close>, and it
  reconnects the observers, so that the next mutation notification is handled and
  leads to a second pass. The listener of the \<^verbatim>\<open>reflow\<close> event and the intersection
  observer stay armed as well: after \<^verbatim>\<open>showAll()\<close> with no callback outstanding, either
  of them starts a pass that moves two items to the overflow slot.
\<close>

theorem pending_reflow_overrides_showAll:
  "attrs (stateOf (showAll wideLayout (step ResizeNotification exampleList))) ''disabled'' =
     Some ''true'' \<and>
   map slot (children (stateOf (showAll wideLayout (step ResizeNotification exampleList)))) =
     ['''', '''', ''''] \<and>
   attrs (step (CallbackFires narrowLayout)
       (stateOf (showAll wideLayout (step ResizeNotification exampleList)))) ''disabled'' =
     Some ''true'' \<and>
   map slot (children (step (CallbackFires narrowLayout)
       (stateOf (showAll wideLayout (step ResizeNotification exampleList))))) =
     ['''', ''overflow'', ''overflow''] \<and>
   scheduled (run [CallbackFires narrowLayout, MutationNotification]
       (stateOf (showAll wideLayout (step ResizeNotification exampleList)))) \<and>
   dispatched (run [CallbackFires narrowLayout, MutationNotification,
                    CallbackFires narrowLayout]
       (stateOf (showAll wideLayout (step ResizeNotification exampleList)))) =
     [True, True] \<and>
   pending (stateOf (showAll wideLayout exampleList)) = 0 \<and>
   map slot (children (step (ReflowListenerRuns None narrowLayout)
       (stateOf (showAll wideLayout exampleList)))) =
     ['''', ''overflow'', ''overflow''] \<and>
   resizeObserving (step (ReflowListenerRuns None narrowLayout)
       (stateOf (showAll wideLayout exampleList))) \<and>
   intersectionObserved (stateOf (showAll wideLayout initialisedList)) = [1, 3] \<and>
   map slot (children
       (run [IntersectionNotification [\<lparr>isIntersecting = True, boundingHeight = 40\<rparr>],
             IntersectionCallbackFires narrowLayout]
          (stateOf (showAll wideLayout initialisedList)))) =
     ['''', ''overflow'', ''overflow'']"
  by (simp add: run_defs showAll_def attributeChangedCallback_def reset_def
      handleChange_def scheduledCallback_def run_def reflowListener_def
      handleIntersection_def intersectionCallback_def initialisedList_def initialize_def
      isSlot_def isHTML_def isUList_def isLI_def isHTMLElement_def observeTarget_def)

text \<open>
  C5, as the code has it: after \<^verbatim>\<open>showAll()\<close> on an initialised component with no
  callback of \<^verbatim>\<open>#handleChange\<close> outstanding, \<^verbatim>\<open>disabled\<close> is \<^verbatim>\<open>"true"\<close>, no item is in
  the overflow bucket and the resize and the mutation observer are disconnected; every
  sequence of resize notifications, mutation notifications and firings of callbacks
  of \<^verbatim>\<open>#handleChange\<close> then leaves the state as it is, since no notification reaches
  \<^verbatim>\<open>#handleChange\<close>. The statement is about these events only: a pass started by the
  \<^verbatim>\<open>reflow\<close> event, by the intersection observer or by a change of \<^verbatim>\<open>disabled\<close> is not
  covered by it.
\<close>

theorem showAll_suppresses_notifications:
  assumes "refs s \<noteq> None" "pending s = 0"
  shows "\<exists>s'. showAll lay s = Return s' \<and> attrs s' ''disabled'' = Some ''true'' \<and>
           overflowBucket s' = [] \<and> \<not> resizeObserving s' \<and> \<not> mutationObserving s' \<and>
           (\<forall>evs. list_all fromChangeObservers evs \<longrightarrow>
                  run evs s' = s' \<and> overflowBucket (run evs s') = [])"
proof -
  obtain r where r: "refs s = Some r" using assms(1) by blast
  obtain s' where s': "showAll lay s = Return s'" "\<not> resizeObserving s'"
    "\<not> mutationObserving s'" "pending s' = pending s"
    "children s' = moveItemsToDefaultSlot (children s)" "attrs s' ''disabled'' = Some ''true''"
    using showAll_result[OF r] by blast
  have b: "overflowBucket s' = []"
    by (simp add: overflowBucket_def s'(5) moveItems_map overflowBucket_moved)
  have p: "pending s' = 0" using s'(4) assms(2) by simp
  have "\<forall>evs. list_all fromChangeObservers evs \<longrightarrow>
                  run evs s' = s' \<and> overflowBucket (run evs s') = []"
    using run_idle[OF s'(2,3) p] b by simp
  with s'(1,2,3,6) b show ?thesis by blast
qed

text \<open>The example list after a narrow pass, shown in full and then notified.\<close>

theorem showAll_suppresses_notifications_witness:
  "refs narrowPass \<noteq> None \<and> pending narrowPass = 0 \<and>
   map slot (children narrowPass) = ['''', ''overflow'', ''overflow''] \<and>
   list_all fromChangeObservers
     [ResizeNotification, MutationNotification, CallbackFires narrowLayout] \<and>
   (\<exists>s'. showAll wideLayout narrowPass = Return s' \<and>
         map slot (children s') = ['''', '''', ''''] \<and>
         run [ResizeNotification, MutationNotification, CallbackFires narrowLayout] s' = s')"
  using showAll_suppresses_notifications [of narrowPass wideLayout]
  by (simp add: narrowPass_def run_defs showAll_def attributeChangedCallback_def reset_def
      run_def)

subsection \<open>C6: the counter, the placeholder and the "more" slot\<close>

text \<open>
  C6 says that after a pass over a non-empty item collection the placeholder width is
  the width of the first overflowing item, and 0 when nothing overflows. The pass
  writes the width only when an item overflows: when the example list is widened
  after a narrow pass, nothing overflows and the placeholder, now hidden, still has
  the width 62px of the earlier pass.
\<close>

theorem placeholder_width_not_reset:
  "overflowBucket (stateOf (reflowItems 0 None wideLayout narrowPass)) = [] \<and>
   placeholderStyle (stateOf (reflowItems 0 None wideLayout narrowPass)) ''width'' =
     Some (Px 62) \<and>
   placeholderHidden (stateOf (reflowItems 0 None wideLayout narrowPass))"
  by (simp add: narrowPass_def run_defs read_defs)

text \<open>
  C6, as the code has it: after a pass of an initialised component over a non-empty
  item collection, the \<^verbatim>\<open>counter-reset\<close> of the list and the \<^verbatim>\<open>--overflow-count\<close> of
  the host are the size of the overflow bucket, and the \<^verbatim>\<open>hidden\<close> property of the
  "more" slot is set exactly when the overflow bucket is empty. When an item
  overflows, the \<^verbatim>\<open>hidden\<close> property of the placeholder is cleared and its inline style
  is the one it had with \<^verbatim>\<open>width\<close> set to the width of the first overflowing item:
  every other inline property stays, also a \<^verbatim>\<open>display: none\<close> that \<^verbatim>\<open>showAll()\<close> has
  left. When no item overflows, the \<^verbatim>\<open>hidden\<close> property of the placeholder is set and
  its inline style is left as it was.
\<close>

theorem reflow_counter_placeholder_more:
  assumes "refs s \<noteq> None" "items s \<noteq> []"
  shows "\<exists>s'. reflowItems listHeight lastVisibleElement lay s = Return s' \<and>
           refs s' \<noteq> None \<and>
           listStyle s' ''counter-reset'' = Some (CounterReset (length (overflowBucket s'))) \<and>
           hostStyle s' ''--overflow-count'' = Some (Dec (length (overflowBucket s'))) \<and>
           moreSlotHidden s' = (overflowBucket s' = []) \<and>
           (if overflowBucket s' = []
            then placeholderHidden s' \<and> placeholderStyle s' = placeholderStyle s
            else \<not> placeholderHidden s' \<and>
                 placeholderStyle s' =
                   (placeholderStyle s)(''width'' \<mapsto>
                      Px (width (elementRect lay (eid (hd (overflowBucket s')))))))"
proof -
  obtain r where r: "refs s = Some r" using assms(1) by blast
  obtain s' where s': "reflowItems listHeight lastVisibleElement lay s = Return s'"
    using reflow_total[OF r] by blast
  let ?ov = "filter (overflows lay) (items s)"
  note rf = reflow_refs[OF r assms(2) s']
  note hs = reflow_hostStyle[OF r assms(2) s']
  note sz = reflow_bucket_sizes[OF r s']
  note bk = reflow_buckets(1)[OF r s']
  have init: "refs s' \<noteq> None" using rf by simp
  have counter: "listStyle s' ''counter-reset'' =
      Some (CounterReset (length (overflowBucket s')))"
    using rf by (simp add: listStyle_def sz(1) setProperty_def)
  have host: "hostStyle s' ''--overflow-count'' = Some (Dec (length (overflowBucket s')))"
    using hs by (simp add: sz(1))
  have more: "moreSlotHidden s' = (overflowBucket s' = [])"
    using rf by (simp add: moreSlotHidden_def sz(3) setProperty_def removeProperty_def)
  have ph: "if overflowBucket s' = []
            then placeholderHidden s' \<and> placeholderStyle s' = placeholderStyle s
            else \<not> placeholderHidden s' \<and>
                 placeholderStyle s' =
                   (placeholderStyle s)(''width'' \<mapsto>
                      Px (width (elementRect lay (eid (hd (overflowBucket s'))))))"
  proof (cases ?ov)
    case Nil
    then show ?thesis
      using rf r by (simp add: placeholderHidden_def placeholderStyle_def sz(3))
  next
    case (Cons e rest)
    have "eid (hd (overflowBucket s')) = eid e"
      by (rule first_overflowing_eid[OF bk Cons])
    then show ?thesis
      using rf r Cons
      by (simp add: placeholderHidden_def placeholderStyle_def sz(3) setProperty_def)
  qed
  from s' init counter host more ph show ?thesis by blast
qed

text \<open>
  The example list under the narrow and under the wide layout, and under the narrow
  layout after \<^verbatim>\<open>showAll()\<close>: the placeholder gets its width and keeps
  \<^verbatim>\<open>display: none\<close>.
\<close>

theorem reflow_counter_placeholder_more_witness:
  "refs exampleList \<noteq> None \<and> items exampleList \<noteq> [] \<and>
   (\<exists>s'. reflowItems 0 None narrowLayout exampleList = Return s' \<and>
         length (overflowBucket s') = 2 \<and>
         listStyle s' ''counter-reset'' = Some (CounterReset 2) \<and>
         hostStyle s' ''--overflow-count'' = Some (Dec 2) \<and>
         \<not> moreSlotHidden s' \<and> \<not> placeholderHidden s' \<and>
         placeholderStyle s' ''width'' = Some (Px 62) \<and>
         placeholderStyle s' ''display'' = None) \<and>
   (\<exists>s'. reflowItems 0 None wideLayout exampleList = Return s' \<and>
         overflowBucket s' = [] \<and>
         listStyle s' ''counter-reset'' = Some (CounterReset 0) \<and>
         hostStyle s' ''--overflow-count'' = Some (Dec 0) \<and>
         moreSlotHidden s' \<and> placeholderHidden s' \<and>
         placeholderStyle s' ''width'' = None) \<and>
   refs (stateOf (showAll wideLayout exampleList)) \<noteq> None \<and>
   items (stateOf (showAll wideLayout exampleList)) \<noteq> [] \<and>
   (\<exists>s'. reflowItems 0 None narrowLayout (stateOf (showAll wideLayout exampleList)) =
           Return s' \<and>
         length (overflowBucket s') = 2 \<and> \<not> placeholderHidden s' \<and>
         placeholderStyle s' ''width'' = Some (Px 62) \<and>
         placeholderStyle s' ''display'' = Some (Str ''none''))"
  using reflow_counter_placeholder_more [of exampleList 0 None narrowLayout]
        reflow_counter_placeholder_more [of exampleList 0 None wideLayout]
        reflow_counter_placeholder_more
          [of "stateOf (showAll wideLayout exampleList)" 0 None narrowLayout]
  by (simp add: run_defs read_defs items_def showAll_def attributeChangedCallback_def
      reset_def)

subsection \<open>C7: the overrides of the measurement\<close>

text \<open>
  C7 says that at the end of a pass the wrapping of the row and the order overrides
  of the "more" slot and of the pinned item are undone. No statement of the class
  removes \<^verbatim>\<open>flex-wrap\<close>, and the order of the "more" slot is removed only behind
  \<^verbatim>\<open>if (hasOverflow)\<close>: after a pass of the example list in which nothing overflows,
  the list has \<^verbatim>\<open>flex-wrap: wrap\<close> and the "more" slot has \<^verbatim>\<open>order: -1\<close>, and neither
  had it before.
\<close>

theorem wrap_and_more_order_remain:
  "listStyle exampleList ''flex-wrap'' = None \<and>
   moreSlotStyle exampleList ''order'' = None \<and>
   listStyle (stateOf (reflowItems 0 None wideLayout exampleList)) ''flex-wrap'' =
     Some (Str ''wrap'') \<and>
   moreSlotStyle (stateOf (reflowItems 0 None wideLayout exampleList)) ''order'' =
     Some (Str ''-1'')"
  by (simp add: run_defs read_defs)

text \<open>
  C7, as the code has it: at the end of a pass of an initialised component over a
  non-empty item collection, the order override of the pinned item (if supplied) is
  removed; the order override of the "more" slot is removed when at least one item
  overflows and stays \<^verbatim>\<open>-1\<close> otherwise (the slot is hidden then); the
  \<^verbatim>\<open>flex-wrap: wrap\<close> of the list stays.
\<close>

theorem reflow_restores_pinned_order_only:
  assumes "refs s \<noteq> None" "items s \<noteq> []"
  shows "\<exists>s'. reflowItems listHeight lastVisibleElement lay s = Return s' \<and>
           refs s' \<noteq> None \<and>
           listStyle s' ''flex-wrap'' = Some (Str ''wrap'') \<and>
           moreSlotStyle s' ''order'' =
             (if overflowBucket s' = [] then Some (Str ''-1'') else None) \<and>
           (\<forall>c\<in>set (children s'). Some (eid c) = lastVisibleElement \<longrightarrow>
              style c ''order'' = None)"
proof -
  obtain r where r: "refs s = Some r" using assms(1) by blast
  obtain s' where s': "reflowItems listHeight lastVisibleElement lay s = Return s'"
    using reflow_total[OF r] by blast
  note rf = reflow_refs[OF r assms(2) s']
  note sz = reflow_bucket_sizes[OF r s']
  have init: "refs s' \<noteq> None" using rf by simp
  have wrap: "listStyle s' ''flex-wrap'' = Some (Str ''wrap'')"
    using rf by (simp add: listStyle_def setProperty_def)
  have more: "moreSlotStyle s' ''order'' =
             (if overflowBucket s' = [] then Some (Str ''-1'') else None)"
    using rf by (simp add: moreSlotStyle_def sz(3) setProperty_def removeProperty_def)
  have "children s' = map (placed lay lastVisibleElement) (children s)"
    by (rule reflow_children_nonempty[OF r assms(2) s'])
  then have pinned: "\<forall>c\<in>set (children s'). Some (eid c) = lastVisibleElement \<longrightarrow>
              style c ''order'' = None"
    by (auto simp: style_placed_order)
  from s' init wrap more pinned show ?thesis by blast
qed

text \<open>
  The third item pinned, under the narrow layout.
\<close>

theorem reflow_restores_pinned_order_only_witness:
  "refs exampleList \<noteq> None \<and> items exampleList \<noteq> [] \<and>
   (\<exists>s'. reflowItems 0 (Some 3) narrowLayout exampleList = Return s' \<and>
         listStyle s' ''flex-wrap'' = Some (Str ''wrap'') \<and>
         moreSlotStyle s' ''order'' = None \<and>
         map eid (children s') = [1, 2, 3] \<and>
         style (children s' ! 2) ''order'' = None)"
  using reflow_restores_pinned_order_only [of exampleList 0 "Some 3" narrowLayout]
  by (simp add: run_defs read_defs items_def)

subsection \<open>C8: the boundary of the two buckets\<close>

text \<open>
  C8: a pass of an initialised component keeps every child in its place and, for every
  item (a child of the default or of the overflow slot), assigns the overflow slot
  exactly when the item's top is strictly greater than the top of the "more" slot; an
  item whose top equals it goes to the default slot, and so is visible. Children of
  other slots are not items and keep their slot.
\<close>

theorem reflow_tie_is_visible:
  assumes "refs s \<noteq> None"
  shows "\<exists>s'. reflowItems listHeight lastVisibleElement lay s = Return s' \<and>
           length (children s') = length (children s) \<and>
           (\<forall>i<length (children s).
              eid (children s' ! i) = eid (children s ! i) \<and>
              (if slot (children s ! i) = defaultSlot_name \<or>
                  slot (children s ! i) = overflowSlot_name
               then slot (children s' ! i) =
                      (if top (elementRect lay (eid (children s ! i))) > top (moreSlotRect lay)
                       then overflowSlot_name else defaultSlot_name)
               else slot (children s' ! i) = slot (children s ! i)))"
proof -
  obtain r where r: "refs s = Some r" using assms by blast
  obtain s' where s': "reflowItems listHeight lastVisibleElement lay s = Return s'"
    using reflow_total[OF r] by blast
  note sl = reflow_slots[OF r s']
  have len: "length (children s') = length (children s)"
    using arg_cong[OF sl(2), of length] by simp
  have "\<forall>i<length (children s).
              eid (children s' ! i) = eid (children s ! i) \<and>
              (if slot (children s ! i) = defaultSlot_name \<or>
                  slot (children s ! i) = overflowSlot_name
               then slot (children s' ! i) =
                      (if top (elementRect lay (eid (children s ! i))) > top (moreSlotRect lay)
                       then overflowSlot_name else defaultSlot_name)
               else slot (children s' ! i) = slot (children s ! i))"
  proof (intro allI impI)
    fix i assume i: "i < length (children s)"
    have "eid (children s' ! i) = map eid (children s') ! i"
      using i len by simp
    also have "\<dots> = eid (children s ! i)"
      unfolding sl(2) using i by simp
    finally have e: "eid (children s' ! i) = eid (children s ! i)" .
    have "slot (children s' ! i) = map slot (children s') ! i"
      using i len by simp
    also have "\<dots> = slotAfter lay (children s ! i)"
      unfolding sl(1) using i by simp
    finally have "slot (children s' ! i) = slotAfter lay (children s ! i)" .
    with e show "eid (children s' ! i) = eid (children s ! i) \<and>
              (if slot (children s ! i) = defaultSlot_name \<or>
                  slot (children s ! i) = overflowSlot_name
               then slot (children s' ! i) =
                      (if top (elementRect lay (eid (children s ! i))) > top (moreSlotRect lay)
                       then overflowSlot_name else defaultSlot_name)
               else slot (children s' ! i) = slot (children s ! i))"
      by (simp add: slotAfter_def overflows_def)
  qed
  with s' len show ?thesis by blast
qed

text \<open>
  In the narrow layout the first item has the top of the "more" slot and the other
  two lie below it.
\<close>

theorem reflow_tie_is_visible_witness:
  "refs exampleList \<noteq> None \<and>
   top (elementRect narrowLayout 1) = top (moreSlotRect narrowLayout) \<and>
   (\<exists>s'. reflowItems 0 None narrowLayout exampleList = Return s' \<and>
         map eid (children s') = [1, 2, 3] \<and>
         map slot (children s') = ['''', ''overflow'', ''overflow''])"
  using reflow_tie_is_visible [of exampleList 0 None narrowLayout]
  by (simp add: run_defs)

subsection \<open>C9: item widths\<close>

text \<open>
  C9 relates the widths of the items and of the container to the size of the visible
  bucket. The pass reads no container width and compares only the tops it measures;
  which tops follow from which widths is decided by the layout engine of the browser
  and is not part of this development. What the code fixes is stated here: two
  layouts that agree on every top give the same slots, whatever the widths.
\<close>

lemma slots_depend_on_tops_only:
  assumes "refs s = Some r"
    and "top (moreSlotRect lay1) = top (moreSlotRect lay2)"
    and "\<And>i. top (elementRect lay1 i) = top (elementRect lay2 i)"
    and "reflowItems h p lay1 s = Return s1" "reflowItems h p lay2 s = Return s2"
  shows "map slot (children s1) = map slot (children s2)"
proof -
  have "slotAfter lay1 = slotAfter lay2"
    by (rule ext) (simp add: slotAfter_def overflows_def assms(2,3))
  then show ?thesis
    using reflow_slots(1)[OF assms(1,4)] reflow_slots(1)[OF assms(1,5)] by simp
qed

subsection \<open>C10: the observers after a pass\<close>

text \<open>
  C10 says that every invocation of \<^verbatim>\<open>#reflowItems\<close> ends with the resize and the
  mutation observer observing the host. An invocation before \<^verbatim>\<open>#initialize\<close> has set
  \<^verbatim>\<open>#refs\<close> does not: \<^verbatim>\<open>attributeChangedCallback\<close> runs for a \<^verbatim>\<open>disabled\<close> attribute
  that the element carries when it is upgraded, and with a value other than
  \<^verbatim>\<open>"true"\<close> it calls \<^verbatim>\<open>#reflowItems\<close>, which throws at its first statement; the
  observers are as disconnected afterwards as they were before.
\<close>

theorem reflow_before_initialize_throws:
  "refs upgradedList = None \<and> attrs upgradedList ''disabled'' = Some ''false'' \<and>
   attributeChangedCallback ''disabled'' None (Some ''false'') narrowLayout upgradedList =
     Throw TypeError upgradedList \<and>
   reflowItems 0 None narrowLayout upgradedList = Throw TypeError upgradedList \<and>
   \<not> resizeObserving upgradedList \<and> \<not> mutationObserving upgradedList"
  by (simp add: attributeChangedCallback_def reflowItems_def upgradedList_def attachedList_def)

text \<open>
  C10, as the code has it: every invocation of \<^verbatim>\<open>#reflowItems\<close> on a component whose
  \<^verbatim>\<open>#refs\<close> is set returns with the resize and the mutation observer observing the
  host, whatever the children (also none) and whatever the attributes (also
  \<^verbatim>\<open>disabled="true"\<close>); an invocation before \<^verbatim>\<open>#initialize\<close> has set \<^verbatim>\<open>#refs\<close> throws a
  \<^verbatim>\<open>TypeError\<close> at its first statement and leaves the state, the observers included,
  as it was.
\<close>

theorem reflow_reconnects_observers_once_initialised:
  "(refs s = None \<longrightarrow>
      reflowItems listHeight lastVisibleElement lay s = Throw TypeError s) \<and>
   (refs s \<noteq> None \<longrightarrow>
      (\<exists>s'. reflowItems listHeight lastVisibleElement lay s = Return s' \<and>
            resizeObserving s' \<and> mutationObserving s'))"
proof (intro conjI impI)
  assume "refs s = None"
  then show "reflowItems listHeight lastVisibleElement lay s = Throw TypeError s"
    by (rule reflowItems_uninitialised)
next
  assume "refs s \<noteq> None"
  then obtain r where r: "refs s = Some r" by blast
  obtain s' where s': "reflowItems listHeight lastVisibleElement lay s = Return s'"
    using reflow_total[OF r] by blast
  then show "\<exists>s'. reflowItems listHeight lastVisibleElement lay s = Return s' \<and>
            resizeObserving s' \<and> mutationObserving s'"
    using reflow_observing[OF s'] by simp
qed

text \<open>
  A disabled list without children whose observers are disconnected, and the attached
  list before \<^verbatim>\<open>#initialize\<close>.
\<close>

theorem reflow_reconnects_observers_once_initialised_witness:
  "refs (exampleList\<lparr>children := [], attrs := [''disabled'' \<mapsto> ''true''],
           resizeObserving := False, mutationObserving := False\<rparr>) \<noteq> None \<and>
   (\<exists>s'. reflowItems 0 None narrowLayout
           (exampleList\<lparr>children := [], attrs := [''disabled'' \<mapsto> ''true''],
              resizeObserving := False, mutationObserving := False\<rparr>) = Return s' \<and>
         resizeObserving s' \<and> mutationObserving s') \<and>
   refs attachedList = None \<and>
   reflowItems 0 None wideLayout attachedList = Throw TypeError attachedList"
  using reflow_reconnects_observers_once_initialised [of
      "exampleList\<lparr>children := [], attrs := [''disabled'' \<mapsto> ''true''],
         resizeObserving := False, mutationObserving := False\<rparr>" 0 None narrowLayout]
    reflow_reconnects_observers_once_initialised [of attachedList 0 None wideLayout]
  by (simp add: exampleList_def attachedList_def)

end
